theory Spec2Isabelle
  imports Main "HOL-Library.Char_ord" "HOL-Library.List_Lexorder"
begin

section \<open>Strings, characters and integers of the source language\<close>

text \<open>
  A Python \<open>str\<close> is modelled as a HOL \<open>string\<close> whose characters are read as the code
  points 0 to 255 (\<open>of_char\<close>); code points above 255 have no counterpart. On that range
  \<open>str.isdecimal\<close>, the digits \<open>int(s)\<close> accepts and the class \<open>\d\<close> of a regular
  expression are \<open>0\<close>..\<open>9\<close>; \<open>str.isdigit\<close> also holds of the superscripts one, two and
  three (185, 178, 179); \<open>str.isalpha\<close> holds of the 52 ASCII letters and of the letters of
  Latin-1. Python compares strings by code point, lexicographically: that is the order
  \<open><\<close> of \<open>HOL-Library.List_Lexorder\<close> over \<open>HOL-Library.Char_ord\<close>.
  Python integers are unbounded: \<open>int\<close>. The interpreter's configurable limit on the
  number of digits \<open>int(s)\<close> and \<open>str(n)\<close> accept (4300 by default) is not modelled.
\<close>

definition isdecimal :: "char \<Rightarrow> bool" where
  "isdecimal c \<longleftrightarrow> 48 \<le> (of_char c :: nat) \<and> (of_char c :: nat) \<le> 57"

definition isdigit :: "char \<Rightarrow> bool" where
  "isdigit c \<longleftrightarrow>
     isdecimal c \<or> (of_char c :: nat) = 178 \<or> (of_char c :: nat) = 179 \<or>
     (of_char c :: nat) = 185"

definition isalpha :: "char \<Rightarrow> bool" where
  "isalpha c \<longleftrightarrow>
     (65 \<le> (of_char c :: nat) \<and> (of_char c :: nat) \<le> 90) \<or>
     (97 \<le> (of_char c :: nat) \<and> (of_char c :: nat) \<le> 122) \<or>
     (of_char c :: nat) = 170 \<or> (of_char c :: nat) = 181 \<or> (of_char c :: nat) = 186 \<or>
     (192 \<le> (of_char c :: nat) \<and> (of_char c :: nat) \<le> 214) \<or>
     (216 \<le> (of_char c :: nat) \<and> (of_char c :: nat) \<le> 246) \<or>
     (248 \<le> (of_char c :: nat) \<and> (of_char c :: nat) \<le> 255)"

text \<open>
  The white space \<open>int(s)\<close> skips around the digits: 9 to 13 and the blank, and the two
  spaces of Latin-1 (133 and 160).
\<close>

definition isspace :: "char \<Rightarrow> bool" where
  "isspace c \<longleftrightarrow>
     (9 \<le> (of_char c :: nat) \<and> (of_char c :: nat) \<le> 13) \<or> (of_char c :: nat) = 32 \<or>
     (of_char c :: nat) = 133 \<or> (of_char c :: nat) = 160"

text \<open>\<open>s.isdigit()\<close> and \<open>s.isalpha()\<close> on a whole string: false on the empty string.\<close>

definition str_isdigit :: "string \<Rightarrow> bool" where
  "str_isdigit s \<longleftrightarrow> s \<noteq> [] \<and> list_all isdigit s"

definition str_isalpha :: "string \<Rightarrow> bool" where
  "str_isalpha s \<longleftrightarrow> s \<noteq> [] \<and> list_all isalpha s"

definition str_isdecimal :: "string \<Rightarrow> bool" where
  "str_isdecimal s \<longleftrightarrow> s \<noteq> [] \<and> list_all isdecimal s"

text \<open>The value of a string of decimal digits, most significant digit first.\<close>

definition digit_val :: "char \<Rightarrow> nat" where
  "digit_val c = of_char c - 48"

definition digits_to_nat :: "string \<Rightarrow> nat" where
  "digits_to_nat s = foldl (\<lambda>a c. 10 * a + digit_val c) 0 s"

text \<open>The exceptions the modelled code can raise.\<close>

datatype error = ValueError | TypeError | IndexError

text \<open>
  \<open>int(s)\<close> on a string, base 10: surrounding white space is stripped, one sign is
  allowed, then decimal digits, where a single underscore may stand between two digits.
  Anything else raises \<open>ValueError\<close>.
\<close>

definition strip :: "string \<Rightarrow> string" where
  "strip s = rev (dropWhile isspace (rev (dropWhile isspace s)))"

fun int_literal :: "string \<Rightarrow> bool" where
  "int_literal [] = False"
| "int_literal [c] = isdecimal c"
| "int_literal (c # d # cs) =
     (isdecimal c \<and> (if d = CHR ''_'' then int_literal cs else int_literal (d # cs)))"

definition py_int :: "string \<Rightarrow> error + int" where
  "py_int s =
     (case strip s of
        c # r \<Rightarrow>
          if c = CHR ''-'' then
            (if int_literal r
             then Inr (- int (digits_to_nat (filter (\<lambda>x. x \<noteq> CHR ''_'') r)))
             else Inl ValueError)
          else if c = CHR ''+'' then
            (if int_literal r
             then Inr (int (digits_to_nat (filter (\<lambda>x. x \<noteq> CHR ''_'') r)))
             else Inl ValueError)
          else
            (if int_literal (c # r)
             then Inr (int (digits_to_nat (filter (\<lambda>x. x \<noteq> CHR ''_'') (c # r))))
             else Inl ValueError)
      | [] \<Rightarrow> Inl ValueError)"

text \<open>\<open>str(n)\<close> of an integer, which is also how an f-string prints it.\<close>

definition digit_char :: "nat \<Rightarrow> char" where
  "digit_char d = char_of (48 + d)"

fun show_nat :: "nat \<Rightarrow> string" where
  "show_nat n =
     (if n < 10 then [digit_char n] else show_nat (n div 10) @ [digit_char (n mod 10)])"

declare show_nat.simps [simp del]

definition show_int :: "int \<Rightarrow> string" where
  "show_int i = (if i < 0 then CHR ''-'' # show_nat (nat (- i)) else show_nat (nat i))"

text \<open>
  A scalar read from a JSON document: a string or an integer. A JSON object whose values
  are scalars is an association list, read with \<open>dict.get(key, default)\<close>.
\<close>

datatype jval = JStr string | JInt int

type_synonym jobj = "(string \<times> jval) list"

definition dict_get :: "(string \<times> 'v) list \<Rightarrow> string \<Rightarrow> 'v \<Rightarrow> 'v" where
  "dict_get d k dflt = (case map_of d k of Some v \<Rightarrow> v | None \<Rightarrow> dflt)"

fun py_str :: "jval \<Rightarrow> string" where
  "py_str (JStr s) = s"
| "py_str (JInt n) = show_int n"

text \<open>Truth value of \<open>d.get(key)\<close>: \<open>None\<close>, the empty string and 0 are false.\<close>

fun truthy :: "jval option \<Rightarrow> bool" where
  "truthy None = False"
| "truthy (Some (JStr s)) = (s \<noteq> [])"
| "truthy (Some (JInt n)) = (n \<noteq> 0)"

section \<open>Package Version Model (rpm_utils.py)\<close>

text \<open>
  The epoch normalisation that \<open>__post_init__\<close>, \<open>compare_versions\<close> and \<open>format_evr\<close>
  each write out: a string epoch is 0 when it is \<open>(none)\<close>, empty or \<open>0\<close>, and
  \<open>int(epoch)\<close> otherwise; an integer epoch is kept.
\<close>

fun normalize_epoch :: "jval \<Rightarrow> error + int" where
  "normalize_epoch (JStr s) =
     (if s \<in> set [''(none)'', '''', ''0''] then Inr 0 else py_int s)"
| "normalize_epoch (JInt n) = Inr n"

record RPMVersion =
  rpm_name :: string
  rpm_epoch :: int
  rpm_version :: string
  rpm_release :: string
  rpm_arch :: string

text \<open>The dataclass constructor followed by \<open>__post_init__\<close>.\<close>

definition RPMVersion_init ::
  "string \<Rightarrow> jval \<Rightarrow> string \<Rightarrow> string \<Rightarrow> string \<Rightarrow> error + RPMVersion" where
  "RPMVersion_init nm ep ver rel ar =
     (case normalize_epoch ep of
        Inl e \<Rightarrow> Inl e
      | Inr n \<Rightarrow>
          Inr \<lparr>rpm_name = nm, rpm_epoch = n, rpm_version = ver, rpm_release = rel,
               rpm_arch = ar\<rparr>)"

definition nevra :: "RPMVersion \<Rightarrow> string" where
  "nevra x =
     rpm_name x @ ''-'' @ show_int (rpm_epoch x) @ '':'' @ rpm_version x @ ''-'' @
     rpm_release x @ ''.'' @ rpm_arch x"

definition nvra :: "RPMVersion \<Rightarrow> string" where
  "nvra x = rpm_name x @ ''-'' @ rpm_version x @ ''-'' @ rpm_release x @ ''.'' @ rpm_arch x"

definition evr :: "RPMVersion \<Rightarrow> string" where
  "evr x = show_int (rpm_epoch x) @ '':'' @ rpm_version x @ ''-'' @ rpm_release x"

section \<open>Version Comparator (rpm_utils.py)\<close>

text \<open>
  \<open>_split_version_string\<close>: the \<open>for\<close> loop over the characters, with its three loop
  variables \<open>segments\<close>, \<open>current\<close> and \<open>current_is_digit\<close> (\<open>None\<close>, \<open>True\<close> or
  \<open>False\<close>) as arguments, and the flush after the loop as the base case.
\<close>

fun split_loop :: "string \<Rightarrow> string list \<Rightarrow> string \<Rightarrow> bool option \<Rightarrow> string list" where
  "split_loop [] segments current current_is_digit =
     (if current \<noteq> [] then segments @ [current] else segments)"
| "split_loop (c # cs) segments current current_is_digit =
     (if isdigit c then
        (if current_is_digit = Some False \<and> current \<noteq> []
         then split_loop cs (segments @ [current]) [c] (Some True)
         else split_loop cs segments (current @ [c]) (Some True))
      else if isalpha c then
        (if current_is_digit = Some True \<and> current \<noteq> []
         then split_loop cs (segments @ [current]) [c] (Some False)
         else split_loop cs segments (current @ [c]) (Some False))
      else
        (if current \<noteq> []
         then split_loop cs (segments @ [current]) [] None
         else split_loop cs segments [] None))"

definition split_version_string :: "string \<Rightarrow> string list" where
  "split_version_string version = split_loop version [] [] None"

text \<open>
  The loop of \<open>_compare_version_strings\<close> over \<open>zip(segments1, segments2)\<close>:
  \<open>Inr (Some r)\<close> is a \<open>return r\<close> from inside the loop, \<open>Inr None\<close> is the loop running
  to its end, and \<open>Inl e\<close> is an exception of \<open>int(s1)\<close> or \<open>int(s2)\<close>, which are
  evaluated in this order on two segments that passed \<open>isdigit()\<close>.
\<close>

fun compare_pairs :: "(string \<times> string) list \<Rightarrow> error + int option" where
  "compare_pairs [] = Inr None"
| "compare_pairs ((s1, s2) # ps) =
     (if str_isdigit s1 \<and> str_isdigit s2 then
        (case py_int s1 of
           Inl e \<Rightarrow> Inl e
         | Inr n1 \<Rightarrow>
             (case py_int s2 of
                Inl e \<Rightarrow> Inl e
              | Inr n2 \<Rightarrow>
                  if n1 < n2 then Inr (Some (- 1))
                  else if n1 > n2 then Inr (Some 1)
                  else compare_pairs ps))
      else if str_isalpha s1 \<and> str_isalpha s2 then
        (if s1 < s2 then Inr (Some (- 1))
         else if s1 > s2 then Inr (Some 1)
         else compare_pairs ps)
      else if str_isdigit s1 then Inr (Some 1)
      else Inr (Some (- 1)))"

definition compare_version_strings :: "string \<Rightarrow> string \<Rightarrow> error + int" where
  "compare_version_strings v1 v2 =
     (let segments1 = split_version_string v1;
          segments2 = split_version_string v2
      in case compare_pairs (zip segments1 segments2) of
           Inl e \<Rightarrow> Inl e
         | Inr (Some r) \<Rightarrow> Inr r
         | Inr None \<Rightarrow>
             if length segments1 < length segments2 then Inr (- 1)
             else if length segments1 > length segments2 then Inr 1
             else Inr 0)"

text \<open>
  \<open>_compare_version_strings\<close> as \<open>compare_versions\<close> calls it, on values taken from a
  dictionary: iterating over an integer raises \<open>TypeError\<close>.
\<close>

fun compare_version_values :: "jval \<Rightarrow> jval \<Rightarrow> error + int" where
  "compare_version_values (JStr v1) (JStr v2) = compare_version_strings v1 v2"
| "compare_version_values _ _ = Inl TypeError"

definition compare_versions :: "jobj \<Rightarrow> jobj \<Rightarrow> error + int" where
  "compare_versions installed available =
     (case normalize_epoch (dict_get installed ''epoch'' (JInt 0)) of
        Inl e \<Rightarrow> Inl e
      | Inr i_epoch \<Rightarrow>
     (case normalize_epoch (dict_get available ''epoch'' (JInt 0)) of
        Inl e \<Rightarrow> Inl e
      | Inr a_epoch \<Rightarrow>
          if i_epoch < a_epoch then Inr (- 1)
          else if i_epoch > a_epoch then Inr 1
          else
            (case compare_version_values (dict_get installed ''version'' (JStr ''0''))
                    (dict_get available ''version'' (JStr ''0'')) of
               Inl e \<Rightarrow> Inl e
             | Inr version_cmp \<Rightarrow>
                 if version_cmp \<noteq> 0 then Inr version_cmp
                 else compare_version_values (dict_get installed ''release'' (JStr ''0''))
                        (dict_get available ''release'' (JStr ''0'')))))"

definition is_update_available :: "jobj \<Rightarrow> jobj \<Rightarrow> error + bool" where
  "is_update_available installed available =
     (case compare_versions installed available of
        Inl e \<Rightarrow> Inl e
      | Inr c \<Rightarrow> Inr (c < 0))"

text \<open>
  \<open>RPMVersion.__lt__\<close>: \<open>NotImplemented\<close> is a value of its own, not a boolean; the
  operator \<open><\<close> turns it into a \<open>TypeError\<close> once the reflected method has returned it too.
  An exception of the version comparison leaves the method.
\<close>

datatype lt_result = NotImplemented | Result bool

definition rpm_lt :: "RPMVersion \<Rightarrow> RPMVersion \<Rightarrow> error + lt_result" where
  "rpm_lt self other =
     (if rpm_name self \<noteq> rpm_name other \<or> rpm_arch self \<noteq> rpm_arch other
      then Inr NotImplemented
      else if rpm_epoch self \<noteq> rpm_epoch other
      then Inr (Result (rpm_epoch self < rpm_epoch other))
      else
        (case compare_version_strings (rpm_version self) (rpm_version other) of
           Inl e \<Rightarrow> Inl e
         | Inr version_cmp \<Rightarrow>
             if version_cmp \<noteq> 0 then Inr (Result (version_cmp < 0))
             else
               (case compare_version_strings (rpm_release self) (rpm_release other) of
                  Inl e \<Rightarrow> Inl e
                | Inr release_cmp \<Rightarrow> Inr (Result (release_cmp < 0)))))"

definition format_evr :: "jval \<Rightarrow> string \<Rightarrow> string \<Rightarrow> error + string" where
  "format_evr ep ver rel =
     (case normalize_epoch ep of
        Inl e \<Rightarrow> Inl e
      | Inr n \<Rightarrow>
          if n > 0 then Inr (show_int n @ '':'' @ ver @ ''-'' @ rel)
          else Inr (ver @ ''-'' @ rel))"

section \<open>NEVRA parser (rpm_utils.py)\<close>

text \<open>
  The two regular expressions of \<open>parse_nevra\<close>, matched as the backtracking matcher
  does. After the name, each group is followed by a character it cannot hold (\<open>\d+\<close> by
  a colon, \<open>[^-]+\<close> by a hyphen, \<open>[^.]+\<close> by a dot), so the group is the longest run of
  its class and what follows the name matches in at most one way. \<open>.\<close> matches every
  character but the newline, and \<open>$\<close> matches at the end or before a last newline.
\<close>

definition newline :: char where
  "newline = char_of (10 :: nat)"

text \<open>\<open>(.+)$\<close>\<close>

definition match_arch :: "string \<Rightarrow> string option" where
  "match_arch s =
     (let ar = takeWhile (\<lambda>c. c \<noteq> newline) s;
          rest = dropWhile (\<lambda>c. c \<noteq> newline) s
      in if ar \<noteq> [] \<and> (rest = [] \<or> rest = [newline]) then Some ar else None)"

text \<open>\<open>([^.]+)\.(.+)$\<close>\<close>

definition match_release :: "string \<Rightarrow> (string \<times> string) option" where
  "match_release s =
     (let rel = takeWhile (\<lambda>c. c \<noteq> CHR ''.'') s in
      case dropWhile (\<lambda>c. c \<noteq> CHR ''.'') s of
        [] \<Rightarrow> None
      | _ # rest \<Rightarrow>
          if rel = [] then None
          else (case match_arch rest of None \<Rightarrow> None | Some ar \<Rightarrow> Some (rel, ar)))"

text \<open>\<open>([^-]+)-([^.]+)\.(.+)$\<close>\<close>

definition match_version :: "string \<Rightarrow> (string \<times> string \<times> string) option" where
  "match_version s =
     (let ver = takeWhile (\<lambda>c. c \<noteq> CHR ''-'') s in
      case dropWhile (\<lambda>c. c \<noteq> CHR ''-'') s of
        [] \<Rightarrow> None
      | _ # rest \<Rightarrow>
          if ver = [] then None
          else (case match_release rest of None \<Rightarrow> None | Some (rel, ar) \<Rightarrow> Some (ver, rel, ar)))"

text \<open>\<open>(\d+):([^-]+)-([^.]+)\.(.+)$\<close>\<close>

definition match_epoch :: "string \<Rightarrow> (string \<times> string \<times> string \<times> string) option" where
  "match_epoch s =
     (let ep = takeWhile isdecimal s in
      case dropWhile isdecimal s of
        [] \<Rightarrow> None
      | c # rest \<Rightarrow>
          if ep = [] \<or> c \<noteq> CHR '':'' then None
          else (case match_version rest of None \<Rightarrow> None | Some t \<Rightarrow> Some (ep, t)))"

text \<open>
  \<open>^(.+)-\<close> followed by \<open>tail\<close>: \<open>pre\<close> is what the name group holds so far. The group
  is greedy, so taking one more character is tried first, and only when the rest then
  fails to match is the name ended here, before a hyphen.
\<close>

fun match_name :: "(string \<Rightarrow> 'a option) \<Rightarrow> string \<Rightarrow> string \<Rightarrow> (string \<times> 'a) option" where
  "match_name tail pre [] = None"
| "match_name tail pre (c # cs) =
     (if c = newline then None
      else
        (case match_name tail (pre @ [c]) cs of
           Some r \<Rightarrow> Some r
         | None \<Rightarrow>
             if c = CHR ''-'' \<and> pre \<noteq> [] then
               (case tail cs of None \<Rightarrow> None | Some t \<Rightarrow> Some (pre, t))
             else None))"

definition parse_nevra :: "string \<Rightarrow> RPMVersion option" where
  "parse_nevra nevra_string =
     (case match_name match_epoch [] nevra_string of
        Some (nm, ep, ver, rel, ar) \<Rightarrow>
          Some \<lparr>rpm_name = nm, rpm_epoch = int (digits_to_nat ep), rpm_version = ver,
                rpm_release = rel, rpm_arch = ar\<rparr>
      | None \<Rightarrow>
          (case match_name match_version [] nevra_string of
             Some (nm, ver, rel, ar) \<Rightarrow>
               Some \<lparr>rpm_name = nm, rpm_epoch = 0, rpm_version = ver, rpm_release = rel,
                     rpm_arch = ar\<rparr>
           | None \<Rightarrow> None))"

section \<open>Update Calculator (calculator.py)\<close>

record PackageUpdate =
  pu_name :: jval
  pu_arch :: jval
  pu_channel :: string
  pu_installed_epoch :: string
  pu_installed_version :: jval
  pu_installed_release :: jval
  pu_available_epoch :: string
  pu_available_version :: jval
  pu_available_release :: jval

record UpdateResult =
  ur_host_id :: string
  ur_profile :: string
  ur_os_id :: string
  ur_os_version :: string
  ur_computed_at :: string
  ur_updates :: "PackageUpdate list"
  ur_errors :: "string list"

definition update_count :: "UpdateResult \<Rightarrow> nat" where
  "update_count r = length (ur_updates r)"

text \<open>
  A manifest document: the two keys the calculator reads (\<open>None\<close> when the key is
  missing) and the names of the other keys it has, which only matter for the truth value
  of the dictionary. A repository package cache maps \<open>name.arch\<close> to a package object,
  and an object with identity is a pair of its reference and its content.
\<close>

record manifest =
  mf_os_release :: "(string \<times> string) list option"
  mf_packages :: "jobj list option"
  mf_other_keys :: "string list"

type_synonym repo = "(string \<times> jobj) list"

type_synonym repo_ref = "nat \<times> repo"

text \<open>
  The files the calculator reads: the manifest of a host, when
  \<open>processed/host_id/latest/manifest.json\<close> exists, and the package cache of a
  (profile, arch, channel) directory, when its \<open>.package_cache.json\<close> exists.
\<close>

record world =
  manifest_files :: "string \<Rightarrow> manifest option"
  cache_files :: "string \<Rightarrow> string \<Rightarrow> string \<Rightarrow> repo option"

text \<open>
  The calculator instance: \<open>_repo_cache\<close>, and the next free reference, which every new
  dictionary (one that \<open>json.load\<close> builds, or a \<open>{}\<close>) takes.
\<close>

record calculator =
  repo_cache :: "string \<rightharpoonup> repo_ref"
  next_ref :: nat

definition init_calculator :: calculator where
  "init_calculator = \<lparr>repo_cache = Map.empty, next_ref = 0\<rparr>"

text \<open>\<open>s.split(sep)\<close> for a separator of one character.\<close>

fun split_on :: "char \<Rightarrow> string \<Rightarrow> string list" where
  "split_on sep [] = [[]]"
| "split_on sep (c # cs) =
     (if c = sep then [] # split_on sep cs
      else (case split_on sep cs of
              w # ws \<Rightarrow> (c # w) # ws
            | [] \<Rightarrow> [[c]]))"

definition get_profile_for_os :: "string \<Rightarrow> string \<Rightarrow> error + string" where
  "get_profile_for_os os_id os_version =
     (case split_on CHR ''.'' os_version of
        [] \<Rightarrow> Inl IndexError
      | major_version # _ \<Rightarrow>
          if os_id \<in> set [''rhel'', ''centos'', ''rocky'', ''almalinux'']
          then Inr (''rhel'' @ major_version)
          else Inr (''rhel'' @ major_version))"

definition load_manifest :: "world \<Rightarrow> string \<Rightarrow> manifest option" where
  "load_manifest w hid = manifest_files w hid"

definition load_repo_packages ::
  "world \<Rightarrow> calculator \<Rightarrow> string \<Rightarrow> string \<Rightarrow> string \<Rightarrow> repo_ref \<times> calculator" where
  "load_repo_packages w st prof ar channel =
     (let cache_key = prof @ ''/'' @ ar @ ''/'' @ channel in
      case repo_cache st cache_key of
        Some cached \<Rightarrow> (cached, st)
      | None \<Rightarrow>
          (case cache_files w prof ar channel of
             Some packages \<Rightarrow>
               ((next_ref st, packages),
                st\<lparr>repo_cache := (repo_cache st)(cache_key \<mapsto> (next_ref st, packages)),
                   next_ref := Suc (next_ref st)\<rparr>)
           | None \<Rightarrow> ((next_ref st, []), st\<lparr>next_ref := Suc (next_ref st)\<rparr>)))"

text \<open>The two dictionaries built for one installed package and its repository entry.\<close>

definition version_info :: "jobj \<Rightarrow> jobj" where
  "version_info d =
     [(''epoch'', dict_get d ''epoch'' (JStr ''0'')),
      (''version'', dict_get d ''version'' (JStr ''0'')),
      (''release'', dict_get d ''release'' (JStr ''0''))]"

definition make_update :: "jval \<Rightarrow> jval \<Rightarrow> string \<Rightarrow> jobj \<Rightarrow> jobj \<Rightarrow> PackageUpdate" where
  "make_update nm ar channel installed_info available_info =
     \<lparr>pu_name = nm, pu_arch = ar, pu_channel = channel,
      pu_installed_epoch = py_str (dict_get installed_info ''epoch'' (JStr ''0'')),
      pu_installed_version = dict_get installed_info ''version'' (JStr ''0''),
      pu_installed_release = dict_get installed_info ''release'' (JStr ''0''),
      pu_available_epoch = py_str (dict_get available_info ''epoch'' (JStr ''0'')),
      pu_available_version = dict_get available_info ''version'' (JStr ''0''),
      pu_available_release = dict_get available_info ''release'' (JStr ''0'')\<rparr>"

text \<open>
  The body of the loop over the installed packages, for one package: the updates so far
  are returned as they are on each \<open>continue\<close>, with one more entry when an update is
  available, and an exception of the comparison leaves the loop.
\<close>

definition check_package ::
  "string \<Rightarrow> repo \<Rightarrow> jobj \<Rightarrow> PackageUpdate list \<Rightarrow> error + PackageUpdate list" where
  "check_package channel repo_packages pkg upds =
     (case (map_of pkg ''name'', map_of pkg ''arch'') of
        (Some nm, Some ar) \<Rightarrow>
          if \<not> truthy (Some nm) \<or> \<not> truthy (Some ar) then Inr upds
          else
            (case map_of repo_packages (py_str nm @ ''.'' @ py_str ar) of
               None \<Rightarrow> Inr upds
             | Some available \<Rightarrow>
                 if available = [] then Inr upds
                 else
                   (let installed_info = version_info pkg;
                        available_info = version_info available
                    in case is_update_available installed_info available_info of
                         Inl e \<Rightarrow> Inl e
                       | Inr True \<Rightarrow>
                           Inr (upds @ [make_update nm ar channel installed_info available_info])
                       | Inr False \<Rightarrow> Inr upds))
      | _ \<Rightarrow> Inr upds)"

fun check_packages ::
  "string \<Rightarrow> repo \<Rightarrow> jobj list \<Rightarrow> PackageUpdate list \<Rightarrow> error + PackageUpdate list" where
  "check_packages channel repo_packages [] upds = Inr upds"
| "check_packages channel repo_packages (pkg # pkgs) upds =
     (case check_package channel repo_packages pkg upds of
        Inl e \<Rightarrow> Inl e
      | Inr upds' \<Rightarrow> check_packages channel repo_packages pkgs upds')"

text \<open>The loop over the channels; the calculator comes back with its cache filled.\<close>

fun check_channels ::
  "world \<Rightarrow> string \<Rightarrow> jobj list \<Rightarrow> string list \<Rightarrow> calculator \<Rightarrow> PackageUpdate list \<Rightarrow>
   (error + PackageUpdate list) \<times> calculator" where
  "check_channels w prof installed_packages [] st upds = (Inr upds, st)"
| "check_channels w prof installed_packages (channel # channels) st upds =
     (case load_repo_packages w st prof ''x86_64'' channel of
        ((r, repo_packages), st') \<Rightarrow>
          if repo_packages = [] then check_channels w prof installed_packages channels st' upds
          else
            (case check_packages channel repo_packages installed_packages upds of
               Inl e \<Rightarrow> (Inl e, st')
             | Inr upds' \<Rightarrow> check_channels w prof installed_packages channels st' upds'))"

text \<open>
  \<open>compute_updates_for_host\<close>; \<open>now\<close> is the time stamp taken at its start. An empty
  manifest dictionary is as false as a missing one.
\<close>

definition compute_updates_for_host ::
  "world \<Rightarrow> calculator \<Rightarrow> string \<Rightarrow> string \<Rightarrow> (error + UpdateResult) \<times> calculator" where
  "compute_updates_for_host w st now hid =
     (let not_found =
            \<lparr>ur_host_id = hid, ur_profile = ''unknown'', ur_os_id = ''unknown'',
             ur_os_version = ''unknown'', ur_computed_at = now, ur_updates = [],
             ur_errors = [''Manifest not found for host: '' @ hid]\<rparr>
      in case load_manifest w hid of
        None \<Rightarrow> (Inr not_found, st)
      | Some m \<Rightarrow>
          if mf_os_release m = None \<and> mf_packages m = None \<and> mf_other_keys m = []
          then (Inr not_found, st)
          else
            (let os_release = (case mf_os_release m of None \<Rightarrow> [] | Some d \<Rightarrow> d);
                 os_id = dict_get os_release ''id'' ''unknown'';
                 os_version = dict_get os_release ''version'' ''unknown''
             in case get_profile_for_os os_id os_version of
                  Inl e \<Rightarrow> (Inl e, st)
                | Inr prof \<Rightarrow>
                    (let result =
                           \<lparr>ur_host_id = hid, ur_profile = prof, ur_os_id = os_id,
                            ur_os_version = os_version, ur_computed_at = now,
                            ur_updates = [], ur_errors = []\<rparr>;
                         installed_packages =
                           (case mf_packages m of None \<Rightarrow> [] | Some ps \<Rightarrow> ps)
                     in if installed_packages = []
                        then (Inr (result\<lparr>ur_errors := [''No packages found in manifest'']\<rparr>), st)
                        else
                          (case check_channels w prof installed_packages
                                  [''baseos'', ''appstream''] st [] of
                             (Inl e, st') \<Rightarrow> (Inl e, st')
                           | (Inr upds, st') \<Rightarrow> (Inr (result\<lparr>ur_updates := upds\<rparr>), st')))))"

section \<open>Predicates of the statements\<close>





text \<open>
  The installed and the available triple of an entry, as \<open>PackageUpdate.to_dict\<close> lays
  them out, and what it means for the entry to be strictly newer.
\<close>

definition installed_of :: "PackageUpdate \<Rightarrow> jobj" where
  "installed_of u =
     [(''epoch'', JStr (pu_installed_epoch u)), (''version'', pu_installed_version u),
      (''release'', pu_installed_release u)]"

definition available_of :: "PackageUpdate \<Rightarrow> jobj" where
  "available_of u =
     [(''epoch'', JStr (pu_available_epoch u)), (''version'', pu_available_version u),
      (''release'', pu_available_release u)]"

definition newer :: "PackageUpdate \<Rightarrow> bool" where
  "newer u \<longleftrightarrow> (\<exists>c. compare_versions (installed_of u) (available_of u) = Inr c \<and> c < 0)"

section \<open>Test fixtures (conftest.py)\<close>

text \<open>
  \<open>sample_manifest\<close> and \<open>sample_repo_packages\<close>, with the files \<open>mock_manifests_dir\<close>
  and \<open>mock_mirror_dir\<close> lay out: one host, and one cache for rhel9/x86_64/baseos.
\<close>

definition sample_packages :: "jobj list" where
  "sample_packages =
     [[(''name'', JStr ''bash''), (''epoch'', JStr ''0''), (''version'', JStr ''5.1.8''),
       (''release'', JStr ''6.el9''), (''arch'', JStr ''x86_64''), (''installtime'', JInt 1705313000)],
      [(''name'', JStr ''kernel''), (''epoch'', JStr ''0''), (''version'', JStr ''5.14.0''),
       (''release'', JStr ''427.13.1.el9_4''), (''arch'', JStr ''x86_64''),
       (''installtime'', JInt 1705313000)],
      [(''name'', JStr ''openssl''), (''epoch'', JStr ''1''), (''version'', JStr ''3.0.7''),
       (''release'', JStr ''24.el9''), (''arch'', JStr ''x86_64''), (''installtime'', JInt 1705313000)]]"

definition sample_repo_packages :: repo where
  "sample_repo_packages =
     [(''bash.x86_64'',
       [(''name'', JStr ''bash''), (''epoch'', JStr ''0''), (''version'', JStr ''5.1.8''),
        (''release'', JStr ''9.el9''), (''arch'', JStr ''x86_64'')]),
      (''kernel.x86_64'',
       [(''name'', JStr ''kernel''), (''epoch'', JStr ''0''), (''version'', JStr ''5.14.0''),
        (''release'', JStr ''427.13.1.el9_4''), (''arch'', JStr ''x86_64'')]),
      (''openssl.x86_64'',
       [(''name'', JStr ''openssl''), (''epoch'', JStr ''1''), (''version'', JStr ''3.0.7''),
        (''release'', JStr ''27.el9''), (''arch'', JStr ''x86_64'')]),
      (''httpd.x86_64'',
       [(''name'', JStr ''httpd''), (''epoch'', JStr ''0''), (''version'', JStr ''2.4.57''),
        (''release'', JStr ''5.el9''), (''arch'', JStr ''x86_64'')])]"

definition sample_world :: world where
  "sample_world =
     \<lparr>manifest_files =
        (\<lambda>h. if h = ''test-host-001''
             then Some \<lparr>mf_os_release = Some [(''id'', ''rhel''), (''version'', ''9.6'')],
                        mf_packages = Some sample_packages,
                        mf_other_keys = [''manifest_version'', ''host_id'', ''hostname'',
                          ''timestamp'', ''kernel'', ''arch'', ''enabled_repos'']\<rparr>
             else None),
      cache_files =
        (\<lambda>p a c. if p = ''rhel9'' \<and> a = ''x86_64'' \<and> c = ''baseos''
                 then Some sample_repo_packages else None)\<rparr>"

section \<open>Properties of the splitter\<close>

lemma split_loop_segments_prefix:
  "\<exists>rest. split_loop s segments current cid = segments @ rest"
  by (induction s segments current cid rule: split_loop.induct) auto

lemma split_loop_separators:
  "\<forall>c \<in> set s. \<not> isdigit c \<and> \<not> isalpha c \<Longrightarrow>
   split_loop s segments [] cid = segments"
  by (induction s arbitrary: cid) auto

lemma split_loop_nonempty_current:
  "current \<noteq> [] \<Longrightarrow> split_loop s segments current cid \<noteq> segments"
proof (induction s segments current cid rule: split_loop.induct)
  case (1 segments current cid)
  then show ?case by simp
next
  case (2 c cs segments current cid)
  have grow: "split_loop cs (segments @ [current]) cur' cid' \<noteq> segments" for cur' cid'
  proof -
    obtain rest where "split_loop cs (segments @ [current]) cur' cid' = (segments @ [current]) @ rest"
      using split_loop_segments_prefix by blast
    then show ?thesis by simp
  qed
  from 2 show ?case by (auto simp: grow)
qed

lemma split_loop_alnum:
  "\<exists>c \<in> set s. isdigit c \<or> isalpha c \<Longrightarrow> split_loop s segments [] cid \<noteq> segments"
proof (induction s arbitrary: cid)
  case Nil
  then show ?case by simp
next
  case (Cons c cs)
  show ?case
  proof (cases "isdigit c \<or> isalpha c")
    case True
    then show ?thesis
      by (auto simp: split_loop_nonempty_current)
  next
    case False
    with Cons.prems have "\<exists>c \<in> set cs. isdigit c \<or> isalpha c" by auto
    with Cons.IH False show ?thesis by simp
  qed
qed

lemma split_separators_empty:
  "\<forall>c \<in> set s. \<not> isdigit c \<and> \<not> isalpha c \<Longrightarrow> split_version_string s = []"
  by (simp add: split_version_string_def split_loop_separators)

lemma split_alnum_nonempty:
  "\<exists>c \<in> set u. isdigit c \<or> isalpha c \<Longrightarrow> split_version_string u \<noteq> []"
  using split_loop_alnum [of u "[]" None] by (simp add: split_version_string_def)

text \<open>
  C10. A string made only of separator characters (neither digits nor letters; the empty
  string too) splits into no segment at all; two such strings compare equal, and such a
  string is smaller than every string that holds a digit or a letter.
\<close>

theorem separator_only_strings:
  assumes "\<forall>c \<in> set s. \<not> isdigit c \<and> \<not> isalpha c"
    and "\<forall>c \<in> set t. \<not> isdigit c \<and> \<not> isalpha c"
    and "\<exists>c \<in> set u. isdigit c \<or> isalpha c"
  shows "split_version_string s = [] \<and> compare_version_strings s t = Inr 0 \<and>
         compare_version_strings s u = Inr (- 1)"
  using split_separators_empty [OF assms(1)] split_separators_empty [OF assms(2)]
    split_alnum_nonempty [OF assms(3)]
  by (simp add: compare_version_strings_def)

theorem separator_only_strings_witness:
  "split_version_string ''.-~'' = [] \<and> compare_version_strings ''.-~'' ''_ '' = Inr 0 \<and>
   compare_version_strings ''.-~'' ''-1.a'' = Inr (- 1) \<and>
   split_version_string [] = [] \<and> compare_version_strings [] [] = Inr 0 \<and>
   compare_version_strings [] ''0'' = Inr (- 1)"
  using separator_only_strings [of "''.-~''" "''_ ''" "''-1.a''"]
    separator_only_strings [of "[]" "[]" "''0''"]
  by (simp add: isdigit_def isdecimal_def isalpha_def)

section \<open>Profile resolution\<close>

lemma split_on_head:
  "\<exists>ws. split_on sep s = takeWhile (\<lambda>c. c \<noteq> sep) s # ws"
  by (induction s) auto

text \<open>
  C9. For every \<open>os_id\<close> and \<open>os_version\<close>, \<open>get_profile_for_os\<close> returns \<open>rhel\<close> followed
  by the part of \<open>os_version\<close> before its first dot, and the result is the same for any
  other \<open>os_id\<close>.
\<close>

theorem get_profile_for_os_major:
  "get_profile_for_os os_id os_version =
     Inr (''rhel'' @ takeWhile (\<lambda>c. c \<noteq> CHR ''.'') os_version) \<and>
   get_profile_for_os os_id os_version = get_profile_for_os os_id' os_version"
proof -
  obtain ws where "split_on CHR ''.'' os_version = takeWhile (\<lambda>c. c \<noteq> CHR ''.'') os_version # ws"
    using split_on_head by blast
  then show ?thesis by (simp add: get_profile_for_os_def)
qed

theorem get_profile_for_os_examples:
  "get_profile_for_os ''rhel'' ''9.6'' = Inr ''rhel9'' \<and>
   get_profile_for_os ''centos'' ''9'' = Inr ''rhel9'' \<and>
   get_profile_for_os ''rocky'' ''9.3'' = Inr ''rhel9'' \<and>
   get_profile_for_os ''debian'' ''8.10'' = Inr ''rhel8''"
  using get_profile_for_os_major [of "''rhel''" "''9.6''"]
    get_profile_for_os_major [of "''centos''" "''9''"]
    get_profile_for_os_major [of "''rocky''" "''9.3''"]
    get_profile_for_os_major [of "''debian''" "''8.10''"]
  by simp

section \<open>Ordering of package versions\<close>

text \<open>
  C7. \<open>__lt__\<close> on two package versions whose name or architecture differ gives no
  boolean: it returns \<open>NotImplemented\<close>, and it does so in no other case.
\<close>

theorem rpm_lt_not_implemented:
  "rpm_lt a b = Inr NotImplemented \<longleftrightarrow>
     rpm_name a \<noteq> rpm_name b \<or> rpm_arch a \<noteq> rpm_arch b"
  by (auto simp: rpm_lt_def split: sum.splits)

theorem rpm_lt_not_implemented_witness:
  "rpm_lt \<lparr>rpm_name = ''bash'', rpm_epoch = 0, rpm_version = ''5.1.8'', rpm_release = ''6.el9'',
           rpm_arch = ''x86_64''\<rparr>
          \<lparr>rpm_name = ''zsh'', rpm_epoch = 0, rpm_version = ''5.8'', rpm_release = ''9.el9'',
           rpm_arch = ''x86_64''\<rparr> = Inr NotImplemented \<and>
   rpm_lt \<lparr>rpm_name = ''bash'', rpm_epoch = 0, rpm_version = ''5.1.8'', rpm_release = ''6.el9'',
           rpm_arch = ''x86_64''\<rparr>
          \<lparr>rpm_name = ''bash'', rpm_epoch = 0, rpm_version = ''5.1.8'', rpm_release = ''6.el9'',
           rpm_arch = ''aarch64''\<rparr> = Inr NotImplemented"
  using rpm_lt_not_implemented
    [of "\<lparr>rpm_name = ''bash'', rpm_epoch = 0, rpm_version = ''5.1.8'', rpm_release = ''6.el9'',
          rpm_arch = ''x86_64''\<rparr>"
        "\<lparr>rpm_name = ''zsh'', rpm_epoch = 0, rpm_version = ''5.8'', rpm_release = ''9.el9'',
          rpm_arch = ''x86_64''\<rparr>"]
    rpm_lt_not_implemented
    [of "\<lparr>rpm_name = ''bash'', rpm_epoch = 0, rpm_version = ''5.1.8'', rpm_release = ''6.el9'',
          rpm_arch = ''x86_64''\<rparr>"
        "\<lparr>rpm_name = ''bash'', rpm_epoch = 0, rpm_version = ''5.1.8'', rpm_release = ''6.el9'',
          rpm_arch = ''aarch64''\<rparr>"]
  by simp

section \<open>Formatting\<close>

text \<open>
  C4, as the code has it. \<open>format_evr\<close> prints the epoch and a colon before
  \<open>version-release\<close> when the normalised epoch is greater than 0, and \<open>version-release\<close>
  alone otherwise. The \<open>evr\<close> property of a package version always prints the epoch and
  the colon, for epoch 0 too.
\<close>

theorem format_evr_and_evr:
  "(normalize_epoch ep = Inr n \<longrightarrow>
      format_evr ep ver rel =
        Inr (if n > 0 then show_int n @ '':'' @ ver @ ''-'' @ rel else ver @ ''-'' @ rel)) \<and>
   evr x = show_int (rpm_epoch x) @ '':'' @ rpm_version x @ ''-'' @ rpm_release x"
  by (simp add: format_evr_def evr_def)

theorem format_evr_and_evr_witness:
  "format_evr (JInt 1) ''3.0.7'' ''24.el9'' = Inr ''1:3.0.7-24.el9'' \<and>
   format_evr (JStr ''(none)'') ''1.0'' ''1'' = Inr ''1.0-1'' \<and>
   format_evr (JInt 0) ''5.1.8'' ''6.el9'' = Inr ''5.1.8-6.el9''"
proof -
  have s: "show_int 1 = ''1''" by code_simp
  show ?thesis
    using format_evr_and_evr [of "JInt 1" 1 "''3.0.7''" "''24.el9''"]
      format_evr_and_evr [of "JStr ''(none)''" 0 "''1.0''" "''1''"]
      format_evr_and_evr [of "JInt 0" 0 "''5.1.8''" "''6.el9''"]
    by (simp add: s)
qed

theorem evr_epoch_zero_counterexample:
  "evr \<lparr>rpm_name = ''bash'', rpm_epoch = 0, rpm_version = ''5.1.8'', rpm_release = ''6.el9'',
        rpm_arch = ''x86_64''\<rparr> = ''0:5.1.8-6.el9'' \<and>
   evr \<lparr>rpm_name = ''bash'', rpm_epoch = 0, rpm_version = ''5.1.8'', rpm_release = ''6.el9'',
        rpm_arch = ''x86_64''\<rparr> \<noteq> ''5.1.8-6.el9''"
  by code_simp

section \<open>Missing manifest\<close>

text \<open>
  C8. For a host with no manifest, \<open>compute_updates_for_host\<close> returns a result (it
  raises nothing) whose profile, \<open>os_id\<close> and \<open>os_version\<close> are \<open>unknown\<close>, whose errors
  are one string that names the host, and whose update count is 0.
\<close>

theorem missing_manifest_result:
  assumes "load_manifest w hid = None"
  shows "\<exists>r. fst (compute_updates_for_host w st now hid) = Inr r \<and>
           ur_host_id r = hid \<and> ur_profile r = ''unknown'' \<and> ur_os_id r = ''unknown'' \<and>
           ur_os_version r = ''unknown'' \<and>
           ur_errors r = [''Manifest not found for host: '' @ hid] \<and> update_count r = 0"
  using assms by (simp add: compute_updates_for_host_def update_count_def)

theorem missing_manifest_result_witness:
  "\<exists>r. fst (compute_updates_for_host
              \<lparr>manifest_files = (\<lambda>h. None), cache_files = (\<lambda>p a c. None)\<rparr>
              init_calculator ''2024-01-15T10:00:00Z'' ''nonexistent-host'') = Inr r \<and>
       ur_host_id r = ''nonexistent-host'' \<and> ur_profile r = ''unknown'' \<and>
       ur_os_id r = ''unknown'' \<and> ur_os_version r = ''unknown'' \<and>
       ur_errors r = [''Manifest not found for host: nonexistent-host''] \<and> update_count r = 0"
  using missing_manifest_result
    [of "\<lparr>manifest_files = (\<lambda>h. None), cache_files = (\<lambda>p a c. None)\<rparr>" "''nonexistent-host''"
        init_calculator "''2024-01-15T10:00:00Z''"]
  by (simp add: load_manifest_def)


section \<open>Decimal digits\<close>

lemma isdecimal_isdigit: "isdecimal c \<Longrightarrow> isdigit c"
  by (simp add: isdigit_def)

lemma isdigit_not_isalpha: "isdigit c \<Longrightarrow> \<not> isalpha c"
  by (auto simp: isdigit_def isdecimal_def isalpha_def)

lemma str_isdigit_not_isalpha: "str_isdigit s \<Longrightarrow> \<not> str_isalpha s"
  by (cases s) (auto simp: str_isdigit_def str_isalpha_def isdigit_not_isalpha)

lemma of_char_digit_char: "d < 10 \<Longrightarrow> of_char (digit_char d) = 48 + d"
  by (simp add: digit_char_def)

lemma isdecimal_digit_char: "d < 10 \<Longrightarrow> isdecimal (digit_char d)"
  by (simp add: isdecimal_def of_char_digit_char)

lemma digit_val_digit_char: "d < 10 \<Longrightarrow> digit_val (digit_char d) = d"
  by (simp add: digit_val_def of_char_digit_char)

lemma digits_to_nat_snoc: "digits_to_nat (s @ [c]) = 10 * digits_to_nat s + digit_val c"
  by (simp add: digits_to_nat_def)

lemma show_nat_digits: "str_isdecimal (show_nat n)"
proof (induction n rule: show_nat.induct)
  case (1 n)
  show ?case
  proof (cases "n < 10")
    case True
    then show ?thesis
      by (simp add: show_nat.simps [of n] str_isdecimal_def isdecimal_digit_char)
  next
    case False
    with 1 show ?thesis
      by (simp add: show_nat.simps [of n] str_isdecimal_def isdecimal_digit_char)
  qed
qed

lemma digits_to_nat_show_nat: "digits_to_nat (show_nat n) = n"
proof (induction n rule: show_nat.induct)
  case (1 n)
  show ?case
  proof (cases "n < 10")
    case True
    then show ?thesis
      by (simp add: show_nat.simps [of n] digits_to_nat_def digit_val_digit_char)
  next
    case False
    with 1 show ?thesis
      by (simp add: show_nat.simps [of n] digits_to_nat_snoc digit_val_digit_char)
  qed
qed

lemma dropWhile_no_match: "\<forall>c \<in> set s. \<not> P c \<Longrightarrow> dropWhile P s = s"
  by (cases s) auto

lemma strip_no_space: "\<forall>c \<in> set s. \<not> isspace c \<Longrightarrow> strip s = s"
  by (simp add: strip_def dropWhile_no_match)

lemma isdecimal_not_isspace: "isdecimal c \<Longrightarrow> \<not> isspace c"
  by (simp add: isdecimal_def isspace_def)

lemma int_literal_digits: "s \<noteq> [] \<Longrightarrow> list_all isdecimal s \<Longrightarrow> int_literal s"
  by (induction s rule: int_literal.induct) (auto simp: isdecimal_def)

lemma filter_underscore_digits:
  "list_all isdecimal s \<Longrightarrow> filter (\<lambda>x. x \<noteq> CHR ''_'') s = s"
  by (induction s) (auto simp: isdecimal_def)

text \<open>\<open>int(s)\<close> of a string of decimal digits does not raise.\<close>

lemma py_int_digits:
  assumes "str_isdecimal s"
  shows "py_int s = Inr (int (digits_to_nat s))"
proof -
  from assms obtain c r where s: "s = c # r" and c: "isdecimal c" and r: "list_all isdecimal r"
    by (cases s) (auto simp: str_isdecimal_def)
  have "\<forall>x \<in> set s. \<not> isspace x"
    using assms by (auto simp: str_isdecimal_def list_all_iff isdecimal_not_isspace)
  then have strip: "strip s = c # r"
    using s by (simp add: strip_no_space)
  have sign: "c \<noteq> CHR ''-''" "c \<noteq> CHR ''+''"
    using c by (auto simp: isdecimal_def)
  have lit: "int_literal (c # r)"
    using c r by (simp add: int_literal_digits)
  have filt: "filter (\<lambda>x. x \<noteq> CHR ''_'') (c # r) = c # r"
    using filter_underscore_digits [of "c # r"] c r by simp
  show ?thesis
    unfolding py_int_def strip using sign lit filt s by simp
qed

lemma py_int_minus_digits:
  assumes "str_isdecimal r"
  shows "py_int (CHR ''-'' # r) = Inr (- int (digits_to_nat r))"
proof -
  have "\<not> isspace CHR ''-''"
    by (simp add: isspace_def)
  then have "\<forall>x \<in> set (CHR ''-'' # r). \<not> isspace x"
    using assms by (auto simp: str_isdecimal_def list_all_iff isdecimal_not_isspace)
  then have strip: "strip (CHR ''-'' # r) = CHR ''-'' # r"
    by (rule strip_no_space)
  have lit: "int_literal r"
    using assms by (simp add: str_isdecimal_def int_literal_digits)
  have filt: "filter (\<lambda>x. x \<noteq> CHR ''_'') r = r"
    using assms by (simp add: str_isdecimal_def filter_underscore_digits)
  show ?thesis
    unfolding py_int_def strip using lit filt by simp
qed

text \<open>\<open>int(str(n)) == n\<close>\<close>

lemma py_int_show_int: "py_int (show_int n) = Inr n"
proof (cases "n < 0")
  case True
  then show ?thesis
    by (simp add: show_int_def py_int_minus_digits show_nat_digits digits_to_nat_show_nat)
next
  case False
  then show ?thesis
    by (simp add: show_int_def py_int_digits show_nat_digits digits_to_nat_show_nat)
qed



lemma normalize_epoch_py_str:
  "normalize_epoch ep = Inr n \<Longrightarrow> normalize_epoch (JStr (py_str ep)) = Inr n"
proof (cases ep)
  case (JStr s)
  assume "normalize_epoch ep = Inr n"
  with JStr show ?thesis by simp
next
  case (JInt m)
  assume "normalize_epoch ep = Inr n"
  with JInt have m: "m = n" by simp
  have a: "py_int ''(none)'' = Inl ValueError" "py_int [] = Inl ValueError" "py_int ''0'' = Inr 0"
    by code_simp+
  have "show_int n \<noteq> ''(none)''" "show_int n \<noteq> []" "show_int n = ''0'' \<Longrightarrow> n = 0"
    using py_int_show_int [of n] a by auto
  then show ?thesis
    using JInt m py_int_show_int [of n] by auto
qed

section \<open>Segments\<close>






section \<open>Antisymmetry\<close>














section \<open>Mixed segments\<close>

lemma compare_pairs_append:
  "compare_pairs (ps @ qs) =
     (case compare_pairs ps of
        Inl e \<Rightarrow> Inl e
      | Inr (Some r) \<Rightarrow> Inr (Some r)
      | Inr None \<Rightarrow> compare_pairs qs)"
  by (induction ps rule: compare_pairs.induct) (auto split: sum.splits)

lemma compare_pairs_at:
  assumes "i < length ps" and "compare_pairs (take i ps) = Inr None"
  shows "compare_pairs ps = compare_pairs (ps ! i # drop (Suc i) ps)"
proof -
  have "ps = take i ps @ ps ! i # drop (Suc i) ps"
    using assms(1) by (simp add: id_take_nth_drop)
  then have "compare_pairs ps = compare_pairs (take i ps @ ps ! i # drop (Suc i) ps)"
    by simp
  also have "\<dots> = compare_pairs (ps ! i # drop (Suc i) ps)"
    using assms(2) by (simp add: compare_pairs_append)
  finally show ?thesis .
qed

text \<open>
  C2. When the walk over the paired segments of \<open>v1\<close> and \<open>v2\<close> reaches position \<open>i\<close>
  (no earlier pair has decided the comparison or raised) and there one segment is numeric
  and the other alphabetic, the string with the numeric segment is the greater, whatever
  the segments and the position are. In particular \<open>1.a\<close> is smaller than \<open>1.1\<close>.
\<close>

theorem numeric_segment_outranks_alphabetic:
  assumes "i < length (split_version_string v1)" and "i < length (split_version_string v2)"
    and "compare_pairs (take i (zip (split_version_string v1) (split_version_string v2))) =
           Inr None"
  shows "(str_isdigit (split_version_string v1 ! i) \<and> str_isalpha (split_version_string v2 ! i)
            \<longrightarrow> compare_version_strings v1 v2 = Inr 1) \<and>
         (str_isalpha (split_version_string v1 ! i) \<and> str_isdigit (split_version_string v2 ! i)
            \<longrightarrow> compare_version_strings v1 v2 = Inr (- 1)) \<and>
         compare_version_strings ''1.a'' ''1.1'' = Inr (- 1)"
proof -
  let ?s1 = "split_version_string v1" and ?s2 = "split_version_string v2"
  have len: "i < length (zip ?s1 ?s2)"
    using assms(1,2) by simp
  have at: "compare_pairs (zip ?s1 ?s2) =
      compare_pairs ((?s1 ! i, ?s2 ! i) # drop (Suc i) (zip ?s1 ?s2))"
    using compare_pairs_at [OF len assms(3)] assms(1,2) by simp
  have ex: "compare_version_strings ''1.a'' ''1.1'' = Inr (- 1)"
    by code_simp
  show ?thesis
    using at ex str_isdigit_not_isalpha [of "?s1 ! i"] str_isdigit_not_isalpha [of "?s2 ! i"]
    by (auto simp: compare_version_strings_def Let_def)
qed

theorem numeric_segment_outranks_alphabetic_witness:
  "compare_version_strings ''1.a'' ''1.1'' = Inr (- 1) \<and>
   compare_version_strings ''2.0.10'' ''2.0.rc1'' = Inr 1"
proof -
  have s: "split_version_string ''1.a'' = [''1'', ''a'']" "split_version_string ''1.1'' = [''1'', ''1'']"
    "split_version_string ''2.0.10'' = [''2'', ''0'', ''10'']"
    "split_version_string ''2.0.rc1'' = [''2'', ''0'', ''rc'', ''1'']"
    by code_simp+
  have d: "str_isdigit ''1''" "str_isalpha ''a''" "str_isdigit ''10''" "str_isalpha ''rc''"
    by code_simp+
  have w1: "compare_pairs (take 1 (zip (split_version_string ''1.a'') (split_version_string ''1.1''))) =
      Inr None"
    unfolding s by code_simp
  have w2: "compare_pairs (take 2 (zip (split_version_string ''2.0.10'') (split_version_string ''2.0.rc1''))) =
      Inr None"
    unfolding s by code_simp
  from numeric_segment_outranks_alphabetic [of 1 "''1.a''" "''1.1''", OF _ _ w1]
    numeric_segment_outranks_alphabetic [of 2 "''2.0.10''" "''2.0.rc1''", OF _ _ w2]
  show ?thesis
    using d by (simp add: s)
qed

section \<open>Cache identity\<close>

text \<open>
  C6, as the code has it. When the key of a (profile, arch, channel) triple is already
  in the cache, or the triple's cache file exists, two successive calls of
  \<open>load_repo_packages\<close> with the triple return the same object (the same reference, hence
  the same content), and after the first call the cache holds it. The files may change
  between the two calls.
\<close>

theorem load_repo_packages_same_object:
  assumes "repo_cache st (prof @ ''/'' @ ar @ ''/'' @ channel) \<noteq> None \<or>
           cache_files w prof ar channel \<noteq> None"
  shows "case load_repo_packages w st prof ar channel of
           (r1, st1) \<Rightarrow>
             (case load_repo_packages w' st1 prof ar channel of
                (r2, st2) \<Rightarrow>
                  fst r2 = fst r1 \<and> r2 = r1 \<and>
                  repo_cache st1 (prof @ ''/'' @ ar @ ''/'' @ channel) = Some r1)"
  using assms by (auto simp: load_repo_packages_def Let_def split: option.splits)

theorem load_repo_packages_same_object_witness:
  "fst (fst (load_repo_packages sample_world
         (snd (load_repo_packages sample_world init_calculator ''rhel9'' ''x86_64'' ''baseos''))
         ''rhel9'' ''x86_64'' ''baseos'')) =
   fst (fst (load_repo_packages sample_world init_calculator ''rhel9'' ''x86_64'' ''baseos'')) \<and>
   snd (fst (load_repo_packages sample_world init_calculator ''rhel9'' ''x86_64'' ''baseos'')) =
   sample_repo_packages"
  using load_repo_packages_same_object
    [of init_calculator "''rhel9''" "''x86_64''" "''baseos''" sample_world sample_world]
  by (simp add: split_beta sample_world_def load_repo_packages_def init_calculator_def)

theorem load_repo_packages_fresh_empty_counterexample:
  "fst (fst (load_repo_packages \<lparr>manifest_files = (\<lambda>h. None), cache_files = (\<lambda>p a c. None)\<rparr>
         (snd (load_repo_packages
                \<lparr>manifest_files = (\<lambda>h. None), cache_files = (\<lambda>p a c. None)\<rparr>
                init_calculator ''rhel9'' ''x86_64'' ''baseos''))
         ''rhel9'' ''x86_64'' ''baseos'')) \<noteq>
   fst (fst (load_repo_packages
               \<lparr>manifest_files = (\<lambda>h. None), cache_files = (\<lambda>p a c. None)\<rparr>
               init_calculator ''rhel9'' ''x86_64'' ''baseos'')) \<and>
   repo_cache (snd (load_repo_packages
                \<lparr>manifest_files = (\<lambda>h. None), cache_files = (\<lambda>p a c. None)\<rparr>
                init_calculator ''rhel9'' ''x86_64'' ''baseos'')) ''rhel9/x86_64/baseos'' = None"
  by (simp add: load_repo_packages_def init_calculator_def)

section \<open>Updates are strictly newer\<close>

lemma version_info_get:
  "dict_get (version_info d) ''epoch'' dflt = dict_get d ''epoch'' (JStr ''0'')"
  "dict_get (version_info d) ''version'' dflt = dict_get d ''version'' (JStr ''0'')"
  "dict_get (version_info d) ''release'' dflt = dict_get d ''release'' (JStr ''0'')"
  by (simp_all add: version_info_def dict_get_def)

lemma installed_of_make_update:
  "dict_get (installed_of (make_update nm ar ch (version_info p) (version_info a))) ''epoch'' dflt
     = JStr (py_str (dict_get p ''epoch'' (JStr ''0'')))"
  "dict_get (installed_of (make_update nm ar ch (version_info p) (version_info a))) ''version'' dflt
     = dict_get p ''version'' (JStr ''0'')"
  "dict_get (installed_of (make_update nm ar ch (version_info p) (version_info a))) ''release'' dflt
     = dict_get p ''release'' (JStr ''0'')"
  by (simp_all add: installed_of_def make_update_def version_info_get) (simp_all add: dict_get_def)

lemma available_of_make_update:
  "dict_get (available_of (make_update nm ar ch (version_info p) (version_info a))) ''epoch'' dflt
     = JStr (py_str (dict_get a ''epoch'' (JStr ''0'')))"
  "dict_get (available_of (make_update nm ar ch (version_info p) (version_info a))) ''version'' dflt
     = dict_get a ''version'' (JStr ''0'')"
  "dict_get (available_of (make_update nm ar ch (version_info p) (version_info a))) ''release'' dflt
     = dict_get a ''release'' (JStr ''0'')"
  by (simp_all add: available_of_def make_update_def version_info_get) (simp_all add: dict_get_def)

text \<open>The comparison of the triples an entry stores is the comparison that was made.\<close>

lemma compare_versions_stored:
  assumes "compare_versions (version_info p) (version_info a) = Inr c"
  shows "compare_versions (installed_of (make_update nm ar ch (version_info p) (version_info a)))
           (available_of (make_update nm ar ch (version_info p) (version_info a))) = Inr c"
proof -
  from assms obtain i where i: "normalize_epoch (dict_get p ''epoch'' (JStr ''0'')) = Inr i"
    by (auto simp: compare_versions_def version_info_get split: sum.splits)
  from assms i obtain j where j: "normalize_epoch (dict_get a ''epoch'' (JStr ''0'')) = Inr j"
    by (auto simp: compare_versions_def version_info_get split: sum.splits)
  note i' = normalize_epoch_py_str [OF i] and j' = normalize_epoch_py_str [OF j]
  from assms show ?thesis
    unfolding compare_versions_def version_info_get installed_of_make_update
      available_of_make_update i j i' j'
    by simp
qed

lemma check_package_newer:
  assumes "check_package channel repo_packages pkg upds = Inr upds'"
    and "\<forall>u \<in> set upds. newer u"
  shows "\<forall>u \<in> set upds'. newer u"
proof (cases "upds' = upds")
  case True
  with assms(2) show ?thesis by simp
next
  case False
  with assms(1) obtain nm ar available c where
    "upds' = upds @ [make_update nm ar channel (version_info pkg) (version_info available)]"
    and "compare_versions (version_info pkg) (version_info available) = Inr c" and "c < 0"
    by (auto simp: check_package_def is_update_available_def Let_def
        split: option.splits if_splits sum.splits bool.splits)
  with assms(2) show ?thesis
    using compare_versions_stored by (auto simp: newer_def)
qed

lemma check_packages_newer:
  "check_packages channel repo_packages pkgs upds = Inr upds' \<Longrightarrow>
   \<forall>u \<in> set upds. newer u \<Longrightarrow> \<forall>u \<in> set upds'. newer u"
proof (induction pkgs arbitrary: upds)
  case Nil
  then show ?case by simp
next
  case (Cons pkg pkgs)
  from Cons.prems(1) obtain mid where
    mid: "check_package channel repo_packages pkg upds = Inr mid"
    and rest: "check_packages channel repo_packages pkgs mid = Inr upds'"
    by (auto split: sum.splits)
  from check_package_newer [OF mid Cons.prems(2)] have "\<forall>u \<in> set mid. newer u" .
  from Cons.IH [OF rest this] show ?case .
qed

lemma check_channels_newer:
  "fst (check_channels w prof pkgs channels st upds) = Inr upds' \<Longrightarrow>
   \<forall>u \<in> set upds. newer u \<Longrightarrow> \<forall>u \<in> set upds'. newer u"
proof (induction channels arbitrary: st upds)
  case Nil
  then show ?case by simp
next
  case (Cons channel channels)
  obtain r repo_packages st' where
    load: "load_repo_packages w st prof ''x86_64'' channel = ((r, repo_packages), st')"
    by (metis prod.exhaust)
  show ?case
  proof (cases "repo_packages = []")
    case True
    with Cons.prems(1) load have
      "fst (check_channels w prof pkgs channels st' upds) = Inr upds'"
      by simp
    from Cons.IH [OF this Cons.prems(2)] show ?thesis .
  next
    case False
    with Cons.prems(1) load obtain mid where
      mid: "check_packages channel repo_packages pkgs upds = Inr mid"
      and rest: "fst (check_channels w prof pkgs channels st' mid) = Inr upds'"
      by (auto split: sum.splits)
    from check_packages_newer [OF mid Cons.prems(2)] have "\<forall>u \<in> set mid. newer u" .
    from Cons.IH [OF rest this] show ?thesis .
  qed
qed

lemma check_package_not_newer:
  assumes "map_of pkg ''name'' = Some nm" and "map_of pkg ''arch'' = Some ar"
    and "map_of repo_packages (py_str nm @ ''.'' @ py_str ar) = Some available"
    and "compare_versions (version_info pkg) (version_info available) = Inr c" and "0 \<le> c"
  shows "check_package channel repo_packages pkg upds = Inr upds"
  using assms by (simp add: check_package_def is_update_available_def Let_def)

text \<open>
  C1. Every entry of the updates that \<open>compute_updates_for_host\<close> returns is strictly
  newer: \<open>compare_versions\<close> on its installed and its available triple returns a
  negative number. And the loop body appends nothing for a package whose comparison with
  its repository entry returns 0 or a positive number.
\<close>

theorem updates_are_strictly_newer:
  assumes "fst (compute_updates_for_host w st now hid) = Inr r"
  shows "(\<forall>u \<in> set (ur_updates r).
            \<exists>c. compare_versions (installed_of u) (available_of u) = Inr c \<and> c < 0) \<and>
         (map_of pkg ''name'' = Some nm \<and> map_of pkg ''arch'' = Some ar \<and>
          map_of repo_packages (py_str nm @ ''.'' @ py_str ar) = Some available \<and>
          compare_versions (version_info pkg) (version_info available) = Inr c' \<and> 0 \<le> c'
            \<longrightarrow> check_package channel repo_packages pkg upds = Inr upds)"
proof -
  have "ur_updates r = [] \<or>
        (\<exists>prof pkgs. fst (check_channels w prof pkgs [''baseos'', ''appstream''] st []) =
           Inr (ur_updates r))"
    using assms
    by (auto simp: compute_updates_for_host_def Let_def simp del: check_channels.simps
        split: option.splits if_splits sum.splits prod.splits)
      (metis fst_conv)+
  then have "\<forall>u \<in> set (ur_updates r). newer u"
    using check_channels_newer [of w _ _ "[''baseos'', ''appstream'']" st "[]" "ur_updates r"]
    by auto
  then show ?thesis
    using check_package_not_newer by (auto simp: newer_def)
qed

lemma sample_result:
  "fst (compute_updates_for_host sample_world init_calculator ''2024-01-15T10:00:00Z'' ''test-host-001'') =
   Inr \<lparr>ur_host_id = ''test-host-001'', ur_profile = ''rhel9'', ur_os_id = ''rhel'',
        ur_os_version = ''9.6'', ur_computed_at = ''2024-01-15T10:00:00Z'',
        ur_updates =
          [\<lparr>pu_name = JStr ''bash'', pu_arch = JStr ''x86_64'', pu_channel = ''baseos'',
            pu_installed_epoch = ''0'', pu_installed_version = JStr ''5.1.8'',
            pu_installed_release = JStr ''6.el9'', pu_available_epoch = ''0'',
            pu_available_version = JStr ''5.1.8'', pu_available_release = JStr ''9.el9''\<rparr>,
           \<lparr>pu_name = JStr ''openssl'', pu_arch = JStr ''x86_64'', pu_channel = ''baseos'',
            pu_installed_epoch = ''1'', pu_installed_version = JStr ''3.0.7'',
            pu_installed_release = JStr ''24.el9'', pu_available_epoch = ''1'',
            pu_available_version = JStr ''3.0.7'', pu_available_release = JStr ''27.el9''\<rparr>],
        ur_errors = []\<rparr>"
  by code_simp

theorem updates_are_strictly_newer_witness:
  "(\<exists>r. fst (compute_updates_for_host sample_world init_calculator ''2024-01-15T10:00:00Z''
              ''test-host-001'') = Inr r \<and>
        map pu_name (ur_updates r) = [JStr ''bash'', JStr ''openssl''] \<and>
        list_all (\<lambda>u. \<exists>c. compare_versions (installed_of u) (available_of u) = Inr c \<and> c < 0)
          (ur_updates r)) \<and>
   check_package ''baseos'' sample_repo_packages (sample_packages ! 1) [] = Inr []"
proof -
  let ?kernel = "sample_packages ! 1"
  let ?available = "[(''name'', JStr ''kernel''), (''epoch'', JStr ''0''), (''version'', JStr ''5.14.0''),
        (''release'', JStr ''427.13.1.el9_4''), (''arch'', JStr ''x86_64'')]"
  have k: "map_of ?kernel ''name'' = Some (JStr ''kernel'') \<and>
       map_of ?kernel ''arch'' = Some (JStr ''x86_64'') \<and>
       map_of sample_repo_packages (py_str (JStr ''kernel'') @ ''.'' @ py_str (JStr ''x86_64'')) =
         Some ?available \<and>
       compare_versions (version_info ?kernel) (version_info ?available) = Inr 0 \<and> (0::int) \<le> 0"
    by code_simp
  from updates_are_strictly_newer [OF sample_result,
      of ?kernel "JStr ''kernel''" "JStr ''x86_64''" sample_repo_packages ?available 0
        "''baseos''" "[]"] k
  show ?thesis
    by (simp add: sample_result list_all_iff)
qed

section \<open>Round trip through the NEVRA string\<close>

lemma isdecimal_colon: "\<not> isdecimal CHR '':''"
  by (simp add: isdecimal_def)

lemma hyphen_not_newline: "CHR ''-'' \<noteq> newline"
  by code_simp

lemma takeWhile_up_to: "c \<notin> set xs \<Longrightarrow> takeWhile (\<lambda>x. x \<noteq> c) (xs @ c # ys) = xs"
  by (induction xs) auto

lemma dropWhile_up_to: "c \<notin> set xs \<Longrightarrow> dropWhile (\<lambda>x. x \<noteq> c) (xs @ c # ys) = c # ys"
  by (induction xs) auto

lemma takeWhile_absent: "c \<notin> set xs \<Longrightarrow> takeWhile (\<lambda>x. x \<noteq> c) xs = xs"
  by (induction xs) auto

lemma dropWhile_absent: "c \<notin> set xs \<Longrightarrow> dropWhile (\<lambda>x. x \<noteq> c) xs = []"
  by (induction xs) auto

lemma match_arch_plain:
  "ar \<noteq> [] \<Longrightarrow> newline \<notin> set ar \<Longrightarrow> match_arch ar = Some ar"
  by (simp add: match_arch_def takeWhile_absent dropWhile_absent)

lemma match_release_plain:
  assumes "rel \<noteq> []" and "CHR ''.'' \<notin> set rel" and "ar \<noteq> []" and "newline \<notin> set ar"
  shows "match_release (rel @ CHR ''.'' # ar) = Some (rel, ar)"
  using assms(1) match_arch_plain [OF assms(3,4)]
  by (simp add: match_release_def takeWhile_up_to [OF assms(2)] dropWhile_up_to [OF assms(2)])

lemma match_version_plain:
  assumes "ver \<noteq> []" and "CHR ''-'' \<notin> set ver" and "match_release rest = Some (rel, ar)"
  shows "match_version (ver @ CHR ''-'' # rest) = Some (ver, rel, ar)"
  using assms(1,3)
  by (simp add: match_version_def takeWhile_up_to [OF assms(2)] dropWhile_up_to [OF assms(2)])

lemma match_epoch_plain:
  assumes "str_isdecimal ep" and "match_version rest = Some t"
  shows "match_epoch (ep @ CHR '':'' # rest) = Some (ep, t)"
proof -
  from assms(1) have d: "\<forall>c \<in> set ep. isdecimal c" and ne: "ep \<noteq> []"
    by (simp_all add: str_isdecimal_def list_all_iff)
  have "takeWhile isdecimal (ep @ CHR '':'' # rest) = ep"
    using d by (simp add: takeWhile_tail isdecimal_colon takeWhile_eq_all_conv)
  moreover have "dropWhile isdecimal (ep @ CHR '':'' # rest) = CHR '':'' # rest"
    using d by (simp add: dropWhile_append3 isdecimal_colon)
  ultimately show ?thesis
    using ne assms(2) by (simp add: match_epoch_def)
qed

text \<open>Without a hyphen there is no version group, hence no match after the name.\<close>

lemma match_version_no_hyphen: "CHR ''-'' \<notin> set s \<Longrightarrow> match_version s = None"
  by (simp add: match_version_def dropWhile_absent)

lemma match_epoch_no_hyphen:
  assumes "CHR ''-'' \<notin> set s"
  shows "match_epoch s = None"
proof (cases "dropWhile isdecimal s")
  case Nil
  show ?thesis by (simp add: match_epoch_def Nil)
next
  case (Cons c rest)
  have "set rest \<subseteq> set s"
    using set_dropWhileD [of _ isdecimal s] Cons by auto
  with assms have "match_version rest = None"
    by (auto intro: match_version_no_hyphen)
  then show ?thesis by (simp add: match_epoch_def Cons Let_def)
qed

lemma match_name_no_hyphen:
  "CHR ''-'' \<notin> set s \<Longrightarrow> match_name tail pre s = None"
  by (induction s arbitrary: pre) auto

lemma match_name_one_hyphen:
  assumes "CHR ''-'' \<notin> set a" and "CHR ''-'' \<notin> set b" and "tail b = None"
  shows "match_name tail pre (a @ CHR ''-'' # b) = None"
  using assms(1)
proof (induction a arbitrary: pre)
  case Nil
  then show ?case
    using assms(2,3) by (simp add: match_name_no_hyphen)
next
  case (Cons c a)
  then have "c \<noteq> CHR ''-''" and "match_name tail (pre @ [c]) (a @ CHR ''-'' # b) = None"
    by auto
  then show ?case by simp
qed

text \<open>The name group ends at the last hyphen after which the rest matches.\<close>

lemma match_name_greedy:
  assumes "newline \<notin> set n" and "pre @ n \<noteq> []" and "tail rest = Some t"
    and "match_name tail (pre @ n @ ''-'') rest = None"
  shows "match_name tail pre (n @ CHR ''-'' # rest) = Some (pre @ n, t)"
  using assms
proof (induction n arbitrary: pre)
  case Nil
  then show ?case
    by (simp add: hyphen_not_newline)
next
  case (Cons c n)
  from Cons.prems have "match_name tail (pre @ [c]) (n @ CHR ''-'' # rest) = Some ((pre @ [c]) @ n, t)"
    by (intro Cons.IH) simp_all
  with Cons.prems(1) show ?case by auto
qed

lemma match_tail_plain:
  assumes "0 \<le> ep" and "ver \<noteq> []" and "CHR ''-'' \<notin> set ver"
    and "rel \<noteq> []" and "CHR ''.'' \<notin> set rel" and "ar \<noteq> []" and "newline \<notin> set ar"
  shows "match_epoch (show_int ep @ '':'' @ ver @ ''-'' @ rel @ ''.'' @ ar) =
           Some (show_int ep, ver, rel, ar)"
proof -
  have "str_isdecimal (show_int ep)"
    using assms(1) by (simp add: show_int_def show_nat_digits)
  moreover have "match_version (ver @ CHR ''-'' # rel @ CHR ''.'' # ar) = Some (ver, rel, ar)"
    using match_version_plain [OF assms(2,3) match_release_plain [OF assms(4,5,6,7)]] .
  ultimately show ?thesis
    using match_epoch_plain by simp
qed

lemma no_later_name:
  assumes "0 \<le> ep" and "CHR ''-'' \<notin> set ver" and "CHR ''-'' \<notin> set rel"
    and "CHR ''-'' \<notin> set ar"
  shows "match_name match_epoch pre (show_int ep @ '':'' @ ver @ ''-'' @ rel @ ''.'' @ ar) = None"
proof -
  have "list_all isdecimal (show_int ep)"
    using assms(1) show_nat_digits [of "nat ep"] by (simp add: show_int_def str_isdecimal_def)
  then have "CHR ''-'' \<notin> set (show_int ep)"
    by (auto simp: list_all_iff isdecimal_def)
  then have a: "CHR ''-'' \<notin> set (show_int ep @ '':'' @ ver)"
    using assms(2) by simp
  have b: "CHR ''-'' \<notin> set (rel @ ''.'' @ ar)"
    using assms(3,4) by simp
  from match_name_one_hyphen [of "show_int ep @ '':'' @ ver" "rel @ ''.'' @ ar" match_epoch pre,
      OF a b match_epoch_no_hyphen [OF b]]
  show ?thesis by simp
qed

text \<open>
  With these restrictions on the fields the round trip holds: a non-empty name without
  a newline, a non-negative epoch, a non-empty version without a hyphen, a non-empty
  release with neither a dot nor a hyphen, and a non-empty architecture without a hyphen
  or a newline.
\<close>

lemma parse_nevra_round_trip_plain:
  assumes "rpm_name x \<noteq> []" and "newline \<notin> set (rpm_name x)" and "0 \<le> rpm_epoch x"
    and "rpm_version x \<noteq> []" and "CHR ''-'' \<notin> set (rpm_version x)"
    and "rpm_release x \<noteq> []" and "CHR ''.'' \<notin> set (rpm_release x)"
    and "CHR ''-'' \<notin> set (rpm_release x)"
    and "rpm_arch x \<noteq> []" and "CHR ''-'' \<notin> set (rpm_arch x)"
    and "newline \<notin> set (rpm_arch x)"
  shows "parse_nevra (nevra x) = Some x"
proof -
  let ?tail = "show_int (rpm_epoch x) @ '':'' @ rpm_version x @ ''-'' @ rpm_release x @ ''.'' @
      rpm_arch x"
  have tail: "match_epoch ?tail =
      Some (show_int (rpm_epoch x), rpm_version x, rpm_release x, rpm_arch x)"
    using match_tail_plain [OF assms(3,4,5,6,7,9,11)] .
  have later: "match_name match_epoch ([] @ rpm_name x @ ''-'') ?tail = None"
    using no_later_name [OF assms(3,5,8,10)] .
  have "match_name match_epoch [] (rpm_name x @ CHR ''-'' # ?tail) =
      Some ([] @ rpm_name x, show_int (rpm_epoch x), rpm_version x, rpm_release x, rpm_arch x)"
    using assms(1) by (intro match_name_greedy [OF assms(2) _ tail later]) simp
  moreover have "int (digits_to_nat (show_int (rpm_epoch x))) = rpm_epoch x"
    using assms(3) by (simp add: show_int_def digits_to_nat_show_nat)
  ultimately show ?thesis
    by (simp add: parse_nevra_def nevra_def)
qed

text \<open>
  A hyphen in the version cannot come back: the version group is \<open>[^-]+\<close>, and the part
  after the hyphen goes to the release.
\<close>

lemma parse_nevra_hyphen_in_version:
  "parse_nevra (nevra \<lparr>rpm_name = ''bash'', rpm_epoch = 0, rpm_version = ''5.1-8'',
                         rpm_release = ''6'', rpm_arch = ''x86_64''\<rparr>) =
     Some \<lparr>rpm_name = ''bash'', rpm_epoch = 0, rpm_version = ''5.1'',
           rpm_release = ''8-6'', rpm_arch = ''x86_64''\<rparr>"
  by code_simp

text \<open>
  C3. The round trip \<open>parse_nevra(x.nevra) == x\<close> fails for the package version the tests
  are written with, bash 0:5.1.8-6.el9 for x86_64: the release group \<open>[^.]+\<close> stops at
  the first dot of the release, so the release comes back as \<open>6\<close> and the architecture as
  \<open>el9.x86_64\<close>. \<open>test_parse_nevra_with_epoch\<close>, \<open>test_parse_nevra_without_epoch\<close> and
  \<open>test_parse_nevra_noarch\<close> expect the release with its dot and the architecture alone.
\<close>

theorem parse_nevra_cuts_dotted_release:
  "parse_nevra (nevra \<lparr>rpm_name = ''bash'', rpm_epoch = 0, rpm_version = ''5.1.8'',
                         rpm_release = ''6.el9'', rpm_arch = ''x86_64''\<rparr>) =
     Some \<lparr>rpm_name = ''bash'', rpm_epoch = 0, rpm_version = ''5.1.8'',
           rpm_release = ''6'', rpm_arch = ''el9.x86_64''\<rparr> \<and>
   parse_nevra (nevra \<lparr>rpm_name = ''bash'', rpm_epoch = 0, rpm_version = ''5.1.8'',
                         rpm_release = ''6.el9'', rpm_arch = ''x86_64''\<rparr>) \<noteq>
     Some \<lparr>rpm_name = ''bash'', rpm_epoch = 0, rpm_version = ''5.1.8'',
           rpm_release = ''6.el9'', rpm_arch = ''x86_64''\<rparr> \<and>
   parse_nevra ''openssl-1:3.0.7-24.el9.x86_64'' =
     Some \<lparr>rpm_name = ''openssl'', rpm_epoch = 1, rpm_version = ''3.0.7'',
           rpm_release = ''24'', rpm_arch = ''el9.x86_64''\<rparr>"
  by code_simp

end
